theory Spec2Isabelle
  imports Complex_Main "HOL-Library.AList"
begin

section \<open>Values exchanged with the market-data provider\<close>

text \<open>
  The backend is one Python module, \<^verbatim>\<open>src/backend/main.py\<close>. Its seven lookup
  functions call the yfinance client and pass on what it answers, as it is or
  after one of the pandas operations \<^verbatim>\<open>df['Close']\<close>, \<^verbatim>\<open>.iloc[-1]\<close> and
  \<^verbatim>\<open>.to_dict()\<close>. The provider is a parameter of the model. Python does not fix
  the type of what the provider answers, so the answers are values of one type of
  Python objects and the three operations are defined on all of them.
\<close>

text \<open>
  Row and column labels of a pandas object, which are also the keys of the
  dictionaries made from it: yfinance uses field names (\<^verbatim>\<open>'Close'\<close>,
  \<^verbatim>\<open>'Total Revenue'\<close>) and timestamps.
\<close>

datatype label = Name string | Timestamp int

text \<open>
  An exception value. \<open>KeyError\<close>, \<open>IndexError\<close>, \<open>TypeError\<close> and
  \<open>AttributeError\<close> are the ones that Python and pandas raise inside this module
  (their messages are left out); every other exception is kept as its class name
  and message.
\<close>

datatype exn = KeyError label | IndexError | TypeError | AttributeError | Exception string string

text \<open>
  Python objects. The type \<open>'v\<close> of numbers stays abstract. A number is either a
  built-in \<^verbatim>\<open>int\<close> or \<^verbatim>\<open>float\<close> or a numpy number, which is what the cells of a
  numeric pandas object are. A Series is a sequence of labelled cells. A
  DataFrame has an index, one label per row, and a sequence of labelled columns;
  every column of a frame that pandas can build has one cell per row.
\<close>

datatype 'v pyobj =
    PyNone
  | PyBool bool
  | PyNumber 'v
  | NumpyNumber 'v
  | PyStr string
  | PyList "'v pyobj list"
  | PyDict "(label \<times> 'v pyobj) list"
  | Series "(label \<times> 'v pyobj) list"
  | DataFrame "label list" "(label \<times> 'v pyobj list) list"

text \<open>
  Python's \<^verbatim>\<open>dict(pairs)\<close>: a key keeps the position of its first occurrence and
  the value of its last one.
\<close>

definition dict :: "('k \<times> 'a) list \<Rightarrow> ('k \<times> 'a) list" where
  "dict ps = foldl (\<lambda>d (k, v). AList.update k v d) [] ps"

text \<open>
  \<^verbatim>\<open>obj[key]\<close> for a key that is a label. On a DataFrame the key selects columns:
  one column with that label comes back as a Series, several come back as a
  DataFrame of these columns, none is a \<^verbatim>\<open>KeyError\<close>. A Series does the same with
  its cells. A dictionary looks the key up. A numpy number raises
  \<^verbatim>\<open>IndexError\<close>; the other objects cannot be subscripted by a string.
\<close>

fun getitem :: "'v pyobj \<Rightarrow> label \<Rightarrow> exn + 'v pyobj" where
  "getitem (DataFrame idx cols) key =
     (case filter (\<lambda>(c, _). c = key) cols of
        [] \<Rightarrow> Inl (KeyError key)
      | [(_, cells)] \<Rightarrow> Inr (Series (zip idx cells))
      | found \<Rightarrow> Inr (DataFrame idx found))"
| "getitem (Series cells) key =
     (case filter (\<lambda>(i, _). i = key) cells of
        [] \<Rightarrow> Inl (KeyError key)
      | [(_, v)] \<Rightarrow> Inr v
      | found \<Rightarrow> Inr (Series found))"
| "getitem (PyDict items) key =
     (case map_of items key of None \<Rightarrow> Inl (KeyError key) | Some v \<Rightarrow> Inr v)"
| "getitem (NumpyNumber _) key = Inl IndexError"
| "getitem PyNone key = Inl TypeError"
| "getitem (PyBool _) key = Inl TypeError"
| "getitem (PyNumber _) key = Inl TypeError"
| "getitem (PyStr _) key = Inl TypeError"
| "getitem (PyList _) key = Inl TypeError"

text \<open>
  \<^verbatim>\<open>obj.iloc[-1]\<close>: the last cell of a Series, the last row of a DataFrame as a
  Series over the column labels, \<^verbatim>\<open>IndexError\<close> when there is no row. Only pandas
  objects have \<^verbatim>\<open>iloc\<close>.
\<close>

definition last_cell :: "'v pyobj list \<Rightarrow> 'v pyobj" where
  "last_cell cells = (case cells of [] \<Rightarrow> PyNone | _ # _ \<Rightarrow> last cells)"

fun iloc_last :: "'v pyobj \<Rightarrow> exn + 'v pyobj" where
  "iloc_last (Series cells) =
     (case cells of [] \<Rightarrow> Inl IndexError | _ # _ \<Rightarrow> Inr (snd (last cells)))"
| "iloc_last (DataFrame idx cols) =
     (case idx of
        [] \<Rightarrow> Inl IndexError
      | _ # _ \<Rightarrow> Inr (Series (map (\<lambda>(c, cells). (c, last_cell (take (length idx) cells))) cols)))"
| "iloc_last _ = Inl AttributeError"

text \<open>
  \<^verbatim>\<open>obj.to_dict()\<close> in its default orientation: a Series becomes the dictionary of
  its cells, a DataFrame the dictionary of its columns, each the dictionary of
  the column's cells. The values come out as built-in numbers. Only pandas
  objects have \<^verbatim>\<open>to_dict\<close>.
\<close>

fun box_native :: "'v pyobj \<Rightarrow> 'v pyobj" where
  "box_native (NumpyNumber v) = PyNumber v"
| "box_native x = x"

definition boxed :: "(label \<times> 'v pyobj) list \<Rightarrow> (label \<times> 'v pyobj) list" where
  "boxed cells = map (\<lambda>(i, v). (i, box_native v)) cells"

fun to_dict :: "'v pyobj \<Rightarrow> exn + 'v pyobj" where
  "to_dict (Series cells) = Inr (PyDict (dict (boxed cells)))"
| "to_dict (DataFrame idx cols) =
     Inr (PyDict (dict (map (\<lambda>(c, cells). (c, PyDict (dict (boxed (zip idx cells))))) cols)))"
| "to_dict _ = Inl AttributeError"

section \<open>The provider and the observable world\<close>

text \<open>
  The yfinance client, as far as the module uses it: the \<^verbatim>\<open>Ticker\<close> constructor and
  six accessors of the object it returns. Each may raise, and each answers with
  some Python object. \<open>history\<close> takes the optional \<^verbatim>\<open>start\<close>/\<^verbatim>\<open>end\<close> pair.
\<close>

record ('h, 'v) yfinance =
  Ticker :: "string \<Rightarrow> exn + 'h"
  history :: "'h \<Rightarrow> (string \<times> string) option \<Rightarrow> exn + 'v pyobj"
  balance_sheet :: "'h \<Rightarrow> exn + 'v pyobj"
  news :: "'h \<Rightarrow> exn + 'v pyobj"
  info :: "'h \<Rightarrow> exn + 'v pyobj"
  dividends :: "'h \<Rightarrow> exn + 'v pyobj"
  financials :: "'h \<Rightarrow> exn + 'v pyobj"

datatype call =
    Call_Ticker string
  | Call_history "(string \<times> string) option"
  | Get_balance_sheet
  | Get_news
  | Get_info
  | Get_dividends
  | Get_financials

text \<open>
  What a lookup can touch: the lines written to standard output and the requests
  made to the provider, both in order. The record is extensible, so a statement
  over \<open>'z world_scheme\<close> also speaks about any further state.
\<close>

record world =
  stdout :: "string list"
  provider_calls :: "call list"

type_synonym ('a, 'z) io = "'z world_scheme \<Rightarrow> (exn + 'a) \<times> 'z world_scheme"

definition print :: "string \<Rightarrow> (unit, 'z) io" where
  "print line w = (Inr (), w\<lparr>stdout := stdout w @ [line]\<rparr>)"

definition ask :: "call \<Rightarrow> exn + 'a \<Rightarrow> ('a, 'z) io" where
  "ask c answer w = (answer, w\<lparr>provider_calls := provider_calls w @ [c]\<rparr>)"

text \<open>A step without effect: it returns or raises.\<close>

definition local_step :: "exn + 'a \<Rightarrow> ('a, 'z) io" where
  "local_step r w = (r, w)"

text \<open>Sequencing: an exception ends the function body at once.\<close>

definition and_then :: "('a, 'z) io \<Rightarrow> ('a \<Rightarrow> ('b, 'z) io) \<Rightarrow> ('b, 'z) io" where
  "and_then m f w = (case m w of (Inl e, w') \<Rightarrow> (Inl e, w') | (Inr x, w') \<Rightarrow> f x w')"

section \<open>The seven lookup functions\<close>

definition get_stock_price :: "('h, 'v) yfinance \<Rightarrow> string \<Rightarrow> ('v pyobj, 'z) io" where
  "get_stock_price yf ticker =
     and_then (print ''get_stock_price tool is being used'') (\<lambda>_.
     and_then (ask (Call_Ticker ticker) (Ticker yf ticker)) (\<lambda>stock.
     and_then (ask (Call_history None) (history yf stock None)) (\<lambda>df.
     and_then (local_step (getitem df (Name ''Close''))) (\<lambda>close.
     local_step (iloc_last close)))))"

definition get_historical_stock_price ::
  "('h, 'v) yfinance \<Rightarrow> string \<Rightarrow> string \<Rightarrow> string \<Rightarrow> ('v pyobj, 'z) io" where
  "get_historical_stock_price yf ticker start_date end_date =
     and_then (print ''get_historical_stock_price tool is being used'') (\<lambda>_.
     and_then (ask (Call_Ticker ticker) (Ticker yf ticker)) (\<lambda>stock.
     and_then (ask (Call_history (Some (start_date, end_date)))
                 (history yf stock (Some (start_date, end_date)))) (\<lambda>df.
     local_step (to_dict df))))"

definition get_balance_sheet :: "('h, 'v) yfinance \<Rightarrow> string \<Rightarrow> ('v pyobj, 'z) io" where
  "get_balance_sheet yf ticker =
     and_then (print ''get_balance_sheet tool is being used'') (\<lambda>_.
     and_then (ask (Call_Ticker ticker) (Ticker yf ticker)) (\<lambda>stock.
     ask Get_balance_sheet (balance_sheet yf stock)))"

definition get_stock_news :: "('h, 'v) yfinance \<Rightarrow> string \<Rightarrow> ('v pyobj, 'z) io" where
  "get_stock_news yf ticker =
     and_then (print ''get_stock_news tool is being used'') (\<lambda>_.
     and_then (ask (Call_Ticker ticker) (Ticker yf ticker)) (\<lambda>stock.
     ask Get_news (news yf stock)))"

definition get_company_info :: "('h, 'v) yfinance \<Rightarrow> string \<Rightarrow> ('v pyobj, 'z) io" where
  "get_company_info yf ticker =
     and_then (print ''get_company_info tool is being used'') (\<lambda>_.
     and_then (ask (Call_Ticker ticker) (Ticker yf ticker)) (\<lambda>stock.
     ask Get_info (info yf stock)))"

definition get_dividends :: "('h, 'v) yfinance \<Rightarrow> string \<Rightarrow> ('v pyobj, 'z) io" where
  "get_dividends yf ticker =
     and_then (print ''get_dividends tool is being used'') (\<lambda>_.
     and_then (ask (Call_Ticker ticker) (Ticker yf ticker)) (\<lambda>stock.
     and_then (ask Get_dividends (dividends yf stock)) (\<lambda>paid.
     local_step (to_dict paid))))"

definition get_financials :: "('h, 'v) yfinance \<Rightarrow> string \<Rightarrow> ('v pyobj, 'z) io" where
  "get_financials yf ticker =
     and_then (print ''get_financials tool is being used'') (\<lambda>_.
     and_then (ask (Call_Ticker ticker) (Ticker yf ticker)) (\<lambda>stock.
     and_then (ask Get_financials (financials yf stock)) (\<lambda>df.
     local_step (to_dict df))))"

section \<open>The tool registry and the agent\<close>

text \<open>
  \<^verbatim>\<open>@tool(name, description=...)\<close> wraps a function into a tool object. Six
  functions take the ticker; the historical lookup takes the ticker and two dates.
  The functions close over the module's \<^verbatim>\<open>yf\<close> import.
\<close>

datatype ('v, 'z) tool_func =
    Ticker_func "string \<Rightarrow> ('v pyobj, 'z) io"
  | Range_func "string \<Rightarrow> string \<Rightarrow> string \<Rightarrow> ('v pyobj, 'z) io"

record ('v, 'z) StructuredTool =
  name :: string
  description :: string
  func :: "('v, 'z) tool_func"

definition tool :: "string \<Rightarrow> string \<Rightarrow> ('v, 'z) tool_func \<Rightarrow> ('v, 'z) StructuredTool" where
  "tool n d f = \<lparr>name = n, description = d, func = f\<rparr>"

text \<open>The list given to \<^verbatim>\<open>create_agent(tools=[...])\<close>, each entry with its decorator.\<close>

definition tools :: "('h, 'v) yfinance \<Rightarrow> ('v, 'z) StructuredTool list" where
  "tools yf =
     [tool ''get_stock_price''
        ''A function that returns the current stock price based on a ticker symbol.''
        (Ticker_func (get_stock_price yf)),
      tool ''get_historical_stock_price''
        ''A function that returns the current stock price over time based on a ticker symbol and a start and end date.''
        (Range_func (get_historical_stock_price yf)),
      tool ''get_balance_sheet''
        ''A function that returns the balance sheet based on a ticker symbol.''
        (Ticker_func (get_balance_sheet yf)),
      tool ''get_stock_news''
        ''A function that returns news based on a ticker symbol.''
        (Ticker_func (get_stock_news yf)),
      tool ''get_company_info''
        ''Return company profile / info for a ticker (summary, sector, industry, website, etc.).''
        (Ticker_func (get_company_info yf)),
      tool ''get_dividends''
        ''Return dividend history for a ticker.''
        (Ticker_func (get_dividends yf)),
      tool ''get_financials''
        ''Return financial statements (income statement / financials) for a ticker.''
        (Ticker_func (get_financials yf))]"

text \<open>Messages, stream items and the configuration dictionary of the agent framework.\<close>

datatype message = SystemMessage string | HumanMessage string

datatype token = Token (content: string)

type_synonym config = "(string \<times> (string \<times> string) list) list"

type_synonym agent_input = "(string \<times> message list) list"

text \<open>
  An iterator that is consumed once: it yields items and then either stops or
  raises. Streams are finite; an upstream call that never answers is outside the
  model.
\<close>

datatype 'a pystream = Item 'a "'a pystream" | StopIteration | Raise exn

record ChatOpenAI =
  model :: string
  base_url :: string

datatype checkpointer = InMemorySaver

text \<open>
  The compiled agent. What \<^verbatim>\<open>agent.stream(input, stream_mode=..., config=...)\<close>
  yields is decided by the framework and the hosted model, so it is a field that
  \<open>create_agent\<close> takes as given; \<open>'m\<close> is the metadata that accompanies each token.
\<close>

record ('t, 'm) agent =
  agent_model :: ChatOpenAI
  agent_checkpointer :: checkpointer
  agent_tools :: "'t list"
  stream :: "agent_input \<Rightarrow> string \<Rightarrow> config \<Rightarrow> (token \<times> 'm) pystream"

definition create_agent ::
  "(agent_input \<Rightarrow> string \<Rightarrow> config \<Rightarrow> (token \<times> 'm) pystream) \<Rightarrow>
     ChatOpenAI \<Rightarrow> checkpointer \<Rightarrow> 't list \<Rightarrow> ('t, 'm) agent" where
  "create_agent behaviour m c ts =
     \<lparr>agent_model = m, agent_checkpointer = c, agent_tools = ts, stream = behaviour\<rparr>"

section \<open>Request models\<close>

record PromptObject =
  content :: string
  id' :: string
  role :: string

record RequestObject =
  prompt :: PromptObject
  threadId :: string
  responseId :: string

text \<open>A parsed JSON document, as \<^verbatim>\<open>json.loads\<close> hands it to Python.\<close>

datatype json =
    JNull
  | JBool bool
  | JNumber real
  | JString string
  | JArray "json list"
  | JObject "(string \<times> json) list"

text \<open>
  The module only declares the two classes above. Checking an incoming body
  against them is the work of the pydantic and FastAPI libraries, whose code is
  not part of the repository; the three validators below stand for it. A
  validation error has a location, the path of the field from \<^verbatim>\<open>body\<close>, and
  the violated constraint.
\<close>

datatype constraint = missing | string_type | model_attributes_type

datatype verror = ValidationError (loc: "string list") (kind: constraint)

text \<open>
  Modelled from the spec: the check of a field declared \<^verbatim>\<open>str\<close>, which the
  library performs. The spec (4.4 step 1) rejects a missing field and a field of
  the wrong type; nothing is said about the text itself.
\<close>

fun str_validate :: "string list \<Rightarrow> json option \<Rightarrow> verror list + string" where
  "str_validate l None = Inl [ValidationError l missing]"
| "str_validate l (Some (JString s)) = Inr s"
| "str_validate l (Some _) = Inl [ValidationError l string_type]"

definition errors_of :: "verror list + 'a \<Rightarrow> verror list" where
  "errors_of r = (case r of Inl es \<Rightarrow> es | Inr _ \<Rightarrow> [])"

text \<open>
  Modelled from the spec: the check against \<^verbatim>\<open>PromptObject\<close>, which the library
  performs. The declared fields are visited in declaration order, every
  violation is reported (6: "field name + constraint violated"), and keys that
  are not declared are ignored.
\<close>

fun PromptObject_validate :: "string list \<Rightarrow> json option \<Rightarrow> verror list + PromptObject" where
  "PromptObject_validate l None = Inl [ValidationError l missing]"
| "PromptObject_validate l (Some (JObject obj)) =
     (let c = str_validate (l @ [''content'']) (map_of obj ''content'');
          i = str_validate (l @ [''id'']) (map_of obj ''id'');
          r = str_validate (l @ [''role'']) (map_of obj ''role'')
      in case (c, i, r) of
           (Inr c', Inr i', Inr r') \<Rightarrow> Inr \<lparr>content = c', id' = i', role = r'\<rparr>
         | _ \<Rightarrow> Inl (errors_of c @ errors_of i @ errors_of r))"
| "PromptObject_validate l (Some _) = Inl [ValidationError l model_attributes_type]"

text \<open>
  Modelled from the spec: the check against \<^verbatim>\<open>RequestObject\<close>, which the library
  performs, in the same manner.
\<close>

fun RequestObject_validate :: "string list \<Rightarrow> json \<Rightarrow> verror list + RequestObject" where
  "RequestObject_validate l (JObject obj) =
     (let p = PromptObject_validate (l @ [''prompt'']) (map_of obj ''prompt'');
          t = str_validate (l @ [''threadId'']) (map_of obj ''threadId'');
          r = str_validate (l @ [''responseId'']) (map_of obj ''responseId'')
      in case (p, t, r) of
           (Inr p', Inr t', Inr r') \<Rightarrow> Inr \<lparr>prompt = p', threadId = t', responseId = r'\<rparr>
         | _ \<Rightarrow> Inl (errors_of p @ errors_of t @ errors_of r))"
| "RequestObject_validate l _ = Inl [ValidationError l model_attributes_type]"

text \<open>
  The Request shape in the spec's words:
  \<^verbatim>\<open>{ prompt: { content: string, id: string, role: string }, threadId: string, responseId: string }\<close>.
\<close>

definition string_at :: "(string \<times> json) list \<Rightarrow> string \<Rightarrow> bool" where
  "string_at obj k = (case map_of obj k of Some (JString _) \<Rightarrow> True | _ \<Rightarrow> False)"

definition matches_Prompt :: "json \<Rightarrow> bool" where
  "matches_Prompt j =
     (case j of
        JObject obj \<Rightarrow> string_at obj ''content'' \<and> string_at obj ''id'' \<and> string_at obj ''role''
      | _ \<Rightarrow> False)"

definition matches_Request :: "json \<Rightarrow> bool" where
  "matches_Request body =
     (case body of
        JObject obj \<Rightarrow>
          (case map_of obj ''prompt'' of None \<Rightarrow> False | Some p \<Rightarrow> matches_Prompt p)
          \<and> string_at obj ''threadId'' \<and> string_at obj ''responseId''
      | _ \<Rightarrow> False)"

text \<open>
  When a reported error is accurate: its location is \<^verbatim>\<open>body\<close> followed by the path
  of a declared field, and the body violates the named constraint there.
\<close>

datatype field_type = Str | Model

definition declared :: "string list \<Rightarrow> field_type option" where
  "declared path =
     map_of [([], Model),
             ([''prompt''], Model),
             ([''prompt'', ''content''], Str),
             ([''prompt'', ''id''], Str),
             ([''prompt'', ''role''], Str),
             ([''threadId''], Str),
             ([''responseId''], Str)] path"

fun at_path :: "json \<Rightarrow> string list \<Rightarrow> json option" where
  "at_path j [] = Some j"
| "at_path (JObject obj) (k # ks) =
     (case map_of obj k of None \<Rightarrow> None | Some v \<Rightarrow> at_path v ks)"
| "at_path _ (k # ks) = None"

fun is_JString :: "json \<Rightarrow> bool" where
  "is_JString (JString _) = True"
| "is_JString _ = False"

fun is_JObject :: "json \<Rightarrow> bool" where
  "is_JObject (JObject _) = True"
| "is_JObject _ = False"

definition accurate :: "json \<Rightarrow> verror \<Rightarrow> bool" where
  "accurate body e =
     (case loc e of
        [] \<Rightarrow> False
      | b # path \<Rightarrow>
          b = ''body'' \<and>
          (case (declared path, kind e, at_path body path) of
             (Some _, missing, None) \<Rightarrow> True
           | (Some Str, string_type, Some v) \<Rightarrow> \<not> is_JString v
           | (Some Model, model_attributes_type, Some v) \<Rightarrow> \<not> is_JObject v
           | _ \<Rightarrow> False))"

section \<open>The endpoint \<^verbatim>\<open>POST /api/chat\<close>\<close>

text \<open>What the server and the agent can observe of one request, in order.\<close>

datatype event =
    ResponseStart nat string "(string \<times> string) list"
  | AgentStream agent_input string config
  | ResponseBody string
  | ResponseEnd
  | ResponseAbort exn
  | ErrorResponse nat "verror list"

text \<open>The result of \<^verbatim>\<open>next()\<close> on a generator.\<close>

datatype 'a step = Yield 'a | Stop | Failed exn

text \<open>
  A generator object of \<^verbatim>\<open>generate\<close>: the variables it closes over and where its
  body stands. Calling \<^verbatim>\<open>generate()\<close> creates the object and runs nothing.
\<close>

datatype 'm frame = Created | Suspended "(token \<times> 'm) pystream" | Finished

record 'm generator =
  request :: RequestObject
  config :: config
  frame :: "'m frame"

definition generate :: "RequestObject \<Rightarrow> config \<Rightarrow> 'm generator" where
  "generate req cfg = \<lparr>request = req, config = cfg, frame = Created\<rparr>"

definition system_instruction :: string where
  "system_instruction = ''You are a stock analysis assistant. You have the ability to get real-time stock prices, historical stock prices (given a date range), news,balance sheet data ,company information,dividend history, and financial statements for publicly traded companies using the provided tools. Use these tools to provide accurate and up-to-date information about stocks when responding to user queries.''"

text \<open>One turn of the \<^verbatim>\<open>for\<close> loop: take the next item and yield \<^verbatim>\<open>token.content\<close>.\<close>

fun resume :: "(token \<times> 'm) pystream \<Rightarrow> string step \<times> 'm frame" where
  "resume (Item (tok, _) rest) = (Yield (token.content tok), Suspended rest)"
| "resume StopIteration = (Stop, Finished)"
| "resume (Raise e) = (Failed e, Finished)"

text \<open>
  \<^verbatim>\<open>next(g)\<close>. The first call enters the body: it builds the two messages, calls
  \<^verbatim>\<open>agent.stream\<close> and takes the first item. The events are the agent invocations
  made during the call.
\<close>

definition generate_next ::
  "('t, 'm) agent \<Rightarrow> 'm generator \<Rightarrow> (string step \<times> 'm generator) \<times> event list" where
  "generate_next a g =
     (case frame g of
        Created \<Rightarrow>
          (let input = [(''messages'',
                         [SystemMessage system_instruction,
                          HumanMessage (content (prompt (request g)))])];
               (r, f) = resume (stream a input ''messages'' (config g))
           in ((r, g\<lparr>frame := f\<rparr>), [AgentStream input ''messages'' (config g)]))
      | Suspended s \<Rightarrow> (let (r, f) = resume s in ((r, g\<lparr>frame := f\<rparr>), []))
      | Finished \<Rightarrow> ((Stop, g), []))"

record 'm StreamingResponse =
  status_code :: nat
  media_type :: string
  headers :: "(string \<times> string) list"
  body_iterator :: "'m generator"

text \<open>
  Modelled from the spec: the constructor of the framework's streaming response.
  The module passes no status; the spec (6) gives "Status: 200 on successful
  stream start".
\<close>

definition StreamingResponse_init ::
  "'m generator \<Rightarrow> string \<Rightarrow> (string \<times> string) list \<Rightarrow> 'm StreamingResponse" where
  "StreamingResponse_init g mt hs =
     \<lparr>status_code = 200, media_type = mt, headers = hs, body_iterator = g\<rparr>"

definition chat :: "RequestObject \<Rightarrow> 'm StreamingResponse" where
  "chat req =
     (let cfg = [(''configurable'', [(''thread_id'', threadId req)])]
      in StreamingResponse_init (generate req cfg) ''text/event-stream''
           [(''Cache-Control'', ''no-cache, no-transform''),
            (''Connection'', ''keep-alive'')])"

text \<open>How many items a stream still holds.\<close>

fun remaining :: "'a pystream \<Rightarrow> nat" where
  "remaining (Item _ rest) = Suc (remaining rest)"
| "remaining StopIteration = 0"
| "remaining (Raise _) = 0"

definition turns_left :: "('t, 'm) agent \<Rightarrow> 'm generator \<Rightarrow> nat" where
  "turns_left a g =
     (case frame g of
        Created \<Rightarrow>
          Suc (remaining (stream a [(''messages'',
                                      [SystemMessage system_instruction,
                                       HumanMessage (content (prompt (request g)))])]
                            ''messages'' (config g)))
      | Suspended s \<Rightarrow> remaining s
      | Finished \<Rightarrow> 0)"

text \<open>
  Modelled from the spec: the framework's relay loop (4.4 steps 3 and 4, 7). Each
  chunk the generator yields is written to the open response body at once; the
  response is closed when the generator is exhausted and ends abruptly, with no
  error event, when the generator raises.
\<close>

function drain :: "('t, 'm) agent \<Rightarrow> 'm generator \<Rightarrow> event list" where
  "drain a g =
     (case generate_next a g of
        ((Yield chunk, g'), evs) \<Rightarrow> evs @ ResponseBody chunk # drain a g'
      | ((Stop, _), evs) \<Rightarrow> evs @ [ResponseEnd]
      | ((Failed e, _), evs) \<Rightarrow> evs @ [ResponseAbort e])"
  by pat_completeness auto
termination
proof (relation "measure (\<lambda>(a, g). turns_left a g)")
  show "wf (measure (\<lambda>(a, g). turns_left a g))"
    by simp
next
  fix a :: "('t, 'm) agent" and g g' :: "'m generator" and x evs x' chunk
  assume "(x, evs) = generate_next a g" and "(x', g') = x" and "x' = Yield chunk"
  then have step: "generate_next a g = ((Yield chunk, g'), evs)"
    by simp
  show "((a, g'), (a, g)) \<in> measure (\<lambda>(a, g). turns_left a g)"
  proof (cases "frame g")
    case Created
    with step show ?thesis
      by (cases "stream a [(''messages'',
                              [SystemMessage system_instruction,
                               HumanMessage (content (prompt (request g)))])]
                    ''messages'' (config g)")
         (auto simp: generate_next_def turns_left_def)
  next
    case (Suspended s)
    with step show ?thesis
      by (cases s) (auto simp: generate_next_def turns_left_def)
  next
    case Finished
    with step show ?thesis
      by (simp add: generate_next_def)
  qed
qed

declare drain.simps [simp del]

text \<open>
  The running process: the module-level \<^verbatim>\<open>agent\<close> and everything sent or invoked
  so far. The state of the conversation store belongs to the framework and is not
  part of it.
\<close>

record ('t, 'm) process =
  agent :: "('t, 'm) agent"
  sent :: "event list"

definition startup ::
  "(agent_input \<Rightarrow> string \<Rightarrow> config \<Rightarrow> (token \<times> 'm) pystream) \<Rightarrow> ('h, 'v) yfinance \<Rightarrow>
     (('v, 'z) StructuredTool, 'm) process" where
  "startup behaviour yf =
     \<lparr>agent = create_agent behaviour
                \<lparr>model = ''c1/openai/gpt-5/v-20250930'',
                 base_url = ''https://api.thesys.dev/v1/embed/''\<rparr>
                InMemorySaver (tools yf),
      sent = []\<rparr>"

text \<open>
  Modelled from the spec: how the framework sends a streaming response (6, 8).
  The status, media type and headers go out first; the body iterator is run
  only after that.
\<close>

definition stream_response :: "'m StreamingResponse \<Rightarrow> ('t, 'm) process \<Rightarrow> ('t, 'm) process" where
  "stream_response resp p =
     p\<lparr>sent := sent p @
          ResponseStart (status_code resp) (media_type resp) (headers resp)
          # drain (agent p) (body_iterator resp)\<rparr>"

text \<open>
  Modelled from the spec: the route \<^verbatim>\<open>@app.post('/api/chat')\<close>. The framework
  validates the body first; a failure is answered with status 422 and the list of
  errors and the handler is not called (4.4 step 1, 6, 7); otherwise the handler's
  response is streamed.
\<close>

definition post_api_chat :: "json \<Rightarrow> ('t, 'm) process \<Rightarrow> ('t, 'm) process" where
  "post_api_chat body p =
     (case RequestObject_validate [''body''] body of
        Inl errors \<Rightarrow> p\<lparr>sent := sent p @ [ErrorResponse 422 errors]\<rparr>
      | Inr req \<Rightarrow> stream_response (chat req) p)"

section \<open>Notions used to state the properties\<close>

text \<open>
  What the provider gives for one lookup: the exception raised by the constructor
  or by the accessor, or the data.
\<close>

definition provider_answer :: "exn + 'h \<Rightarrow> ('h \<Rightarrow> exn + 'a) \<Rightarrow> exn + 'a" where
  "provider_answer opened fetch = (case opened of Inl e \<Rightarrow> Inl e | Inr h \<Rightarrow> fetch h)"

text \<open>
  The provider requests of one lookup without cache and without retry: the
  constructor once, then the accessor once if the constructor returned.
\<close>

definition asked_once :: "string \<Rightarrow> call \<Rightarrow> exn + 'h \<Rightarrow> call list" where
  "asked_once ticker c opened =
     Call_Ticker ticker # (case opened of Inl _ \<Rightarrow> [] | Inr _ \<Rightarrow> [c])"






text \<open>A call returns, and what it returns satisfies \<open>P\<close>.\<close>

definition returns :: "(exn + 'a) \<times> 'w \<Rightarrow> ('a \<Rightarrow> bool) \<Rightarrow> bool" where
  "returns outcome P = (case fst outcome of Inl _ \<Rightarrow> False | Inr x \<Rightarrow> P x)"

text \<open>The body chunks of a trace and the agent invocations of a trace.\<close>

fun body_chunks :: "event list \<Rightarrow> string list" where
  "body_chunks [] = []"
| "body_chunks (ResponseBody chunk # es) = chunk # body_chunks es"
| "body_chunks (_ # es) = body_chunks es"

fun invocations :: "event list \<Rightarrow> event list" where
  "invocations [] = []"
| "invocations (AgentStream i m c # es) = AgentStream i m c # invocations es"
| "invocations (_ # es) = invocations es"

text \<open>The tokens a stream yields before it ends, and how it ends.\<close>

fun yielded :: "('a \<times> 'm) pystream \<Rightarrow> 'a list" where
  "yielded (Item (x, _) rest) = x # yielded rest"
| "yielded StopIteration = []"
| "yielded (Raise _) = []"

fun ending :: "'a pystream \<Rightarrow> event" where
  "ending (Item _ rest) = ending rest"
| "ending StopIteration = ResponseEnd"
| "ending (Raise e) = ResponseAbort e"

text \<open>The two arguments that \<^verbatim>\<open>chat\<close> derives from a request, as the claims name them.\<close>

definition messages_for :: "RequestObject \<Rightarrow> agent_input" where
  "messages_for req =
     [(''messages'', [SystemMessage system_instruction, HumanMessage (content (prompt req))])]"

definition config_for :: "RequestObject \<Rightarrow> config" where
  "config_for req = [(''configurable'', [(''thread_id'', threadId req)])]"

section \<open>Concrete inputs\<close>

definition outage :: exn where
  "outage = Exception ''ConnectionError'' ''provider unreachable''"

definition provider_down :: "(string, int) yfinance" where
  "provider_down =
     \<lparr>Ticker = (\<lambda>t. Inr t),
      history = (\<lambda>_ _. Inl outage),
      balance_sheet = (\<lambda>_. Inl outage),
      news = (\<lambda>_. Inl outage),
      info = (\<lambda>_. Inl outage),
      dividends = (\<lambda>_. Inl outage),
      financials = (\<lambda>_. Inl outage)\<rparr>"

definition sample_history :: "int pyobj" where
  "sample_history =
     DataFrame [Timestamp 1, Timestamp 2]
       [(Name ''Open'', [NumpyNumber 189, NumpyNumber 191]),
        (Name ''Close'', [NumpyNumber 190, NumpyNumber 192])]"

definition sample_statement :: "int pyobj" where
  "sample_statement =
     DataFrame [Name ''Total Assets'', Name ''Total Debt'']
       [(Timestamp 2024, [NumpyNumber 364, NumpyNumber 106]),
        (Timestamp 2023, [NumpyNumber 352, NumpyNumber 111])]"

definition sample_news :: "int pyobj" where
  "sample_news = PyList [PyDict [(Name ''title'', PyStr ''Results'')]]"

definition sample_info :: "int pyobj" where
  "sample_info = PyDict [(Name ''sector'', PyStr ''Technology'')]"

definition sample_dividends :: "int pyobj" where
  "sample_dividends = Series [(Timestamp 1, NumpyNumber 24), (Timestamp 2, NumpyNumber 25)]"

definition provider_sample :: "(string, int) yfinance" where
  "provider_sample =
     \<lparr>Ticker = (\<lambda>t. Inr t),
      history = (\<lambda>_ _. Inr sample_history),
      balance_sheet = (\<lambda>_. Inr sample_statement),
      news = (\<lambda>_. Inr sample_news),
      info = (\<lambda>_. Inr sample_info),
      dividends = (\<lambda>_. Inr sample_dividends),
      financials = (\<lambda>_. Inr sample_statement)\<rparr>"

definition world0 :: world where
  "world0 = \<lparr>stdout = [], provider_calls = []\<rparr>"

definition sample_behaviour :: "agent_input \<Rightarrow> string \<Rightarrow> config \<Rightarrow> (token \<times> unit) pystream" where
  "sample_behaviour i m c = Item (Token ''AAPL '', ()) (Item (Token ''closed at 192'', ()) StopIteration)"

definition sample_process :: "((int, unit) StructuredTool, unit) process" where
  "sample_process = startup sample_behaviour provider_sample"

definition sample_request :: RequestObject where
  "sample_request =
     \<lparr>prompt = \<lparr>content = ''What is AAPL's current price?'', id' = ''1'', role = ''user''\<rparr>,
      threadId = ''t1'', responseId = ''r1''\<rparr>"

definition sample_body :: json where
  "sample_body =
     JObject [(''prompt'', JObject [(''content'', JString ''What is AAPL's current price?''),
                                    (''id'', JString ''1''),
                                    (''role'', JString ''user'')]),
              (''threadId'', JString ''t1''),
              (''responseId'', JString ''r1'')]"

section \<open>The lookup functions in closed form\<close>

lemma and_then_print:
  "and_then (print line) f w = f () (w\<lparr>stdout := stdout w @ [line]\<rparr>)"
  by (simp add: and_then_def print_def)

lemma and_then_ask:
  "and_then (ask c r) f w =
     (case r of
        Inl e \<Rightarrow> (Inl e, w\<lparr>provider_calls := provider_calls w @ [c]\<rparr>)
      | Inr x \<Rightarrow> f x (w\<lparr>provider_calls := provider_calls w @ [c]\<rparr>))"
  by (simp add: and_then_def ask_def split: sum.splits)

lemma and_then_local:
  "and_then (local_step r) f w = (case r of Inl e \<Rightarrow> (Inl e, w) | Inr x \<Rightarrow> f x w)"
  by (simp add: and_then_def local_step_def split: sum.splits)

lemmas io_simps = and_then_print and_then_ask and_then_local local_step_def ask_def

text \<open>
  Each lookup in closed form: the value it returns or the exception it raises,
  and the world it leaves.
\<close>

lemma get_stock_price_run:
  "get_stock_price yf t w =
     (case provider_answer (Ticker yf t) (\<lambda>h. history yf h None) of
        Inl e \<Rightarrow> Inl e
      | Inr df \<Rightarrow>
          (case getitem df (Name ''Close'') of Inl e \<Rightarrow> Inl e | Inr close \<Rightarrow> iloc_last close),
      w\<lparr>stdout := stdout w @ [''get_stock_price tool is being used''],
        provider_calls := provider_calls w @ asked_once t (Call_history None) (Ticker yf t)\<rparr>)"
  by (simp add: get_stock_price_def io_simps provider_answer_def asked_once_def split: sum.splits)

lemma get_historical_stock_price_run:
  "get_historical_stock_price yf t s1 s2 w =
     (case provider_answer (Ticker yf t) (\<lambda>h. history yf h (Some (s1, s2))) of
        Inl e \<Rightarrow> Inl e
      | Inr df \<Rightarrow> to_dict df,
      w\<lparr>stdout := stdout w @ [''get_historical_stock_price tool is being used''],
        provider_calls :=
          provider_calls w @ asked_once t (Call_history (Some (s1, s2))) (Ticker yf t)\<rparr>)"
  by (simp add: get_historical_stock_price_def io_simps provider_answer_def asked_once_def
           split: sum.splits)

lemma get_balance_sheet_run:
  "get_balance_sheet yf t w =
     (provider_answer (Ticker yf t) (balance_sheet yf),
      w\<lparr>stdout := stdout w @ [''get_balance_sheet tool is being used''],
        provider_calls := provider_calls w @ asked_once t Get_balance_sheet (Ticker yf t)\<rparr>)"
  by (simp add: get_balance_sheet_def io_simps provider_answer_def asked_once_def
           split: sum.splits)

lemma get_stock_news_run:
  "get_stock_news yf t w =
     (provider_answer (Ticker yf t) (news yf),
      w\<lparr>stdout := stdout w @ [''get_stock_news tool is being used''],
        provider_calls := provider_calls w @ asked_once t Get_news (Ticker yf t)\<rparr>)"
  by (simp add: get_stock_news_def io_simps provider_answer_def asked_once_def split: sum.splits)

lemma get_company_info_run:
  "get_company_info yf t w =
     (provider_answer (Ticker yf t) (info yf),
      w\<lparr>stdout := stdout w @ [''get_company_info tool is being used''],
        provider_calls := provider_calls w @ asked_once t Get_info (Ticker yf t)\<rparr>)"
  by (simp add: get_company_info_def io_simps provider_answer_def asked_once_def split: sum.splits)

lemma get_dividends_run:
  "get_dividends yf t w =
     (case provider_answer (Ticker yf t) (dividends yf) of
        Inl e \<Rightarrow> Inl e
      | Inr paid \<Rightarrow> to_dict paid,
      w\<lparr>stdout := stdout w @ [''get_dividends tool is being used''],
        provider_calls := provider_calls w @ asked_once t Get_dividends (Ticker yf t)\<rparr>)"
  by (simp add: get_dividends_def io_simps provider_answer_def asked_once_def split: sum.splits)

lemma get_financials_run:
  "get_financials yf t w =
     (case provider_answer (Ticker yf t) (financials yf) of
        Inl e \<Rightarrow> Inl e
      | Inr df \<Rightarrow> to_dict df,
      w\<lparr>stdout := stdout w @ [''get_financials tool is being used''],
        provider_calls := provider_calls w @ asked_once t Get_financials (Ticker yf t)\<rparr>)"
  by (simp add: get_financials_def io_simps provider_answer_def asked_once_def split: sum.splits)

lemmas lookup_runs =
  get_stock_price_run get_historical_stock_price_run get_balance_sheet_run get_stock_news_run
  get_company_info_run get_dividends_run get_financials_run

text \<open>
  Answers outside the documented kind are followed as Python follows them: a
  history with two \<^verbatim>\<open>Close\<close> columns makes the price lookup return a row, a
  Series, and not a number; a history without rows and a provider that answers
  \<^verbatim>\<open>None\<close> make the lookups raise.
\<close>

lemma get_stock_price_repeated_Close:
  assumes "Ticker yf t = Inr h"
    and "history yf h None = Inr (DataFrame [i] [(Name ''Close'', [a]), (Name ''Close'', [b])])"
  shows "fst (get_stock_price yf t w) = Inr (Series [(Name ''Close'', a), (Name ''Close'', b)])"
  using assms by (simp add: get_stock_price_run provider_answer_def last_cell_def)

lemma get_stock_price_no_rows:
  assumes "Ticker yf t = Inr h"
    and "history yf h None = Inr (DataFrame [] [(Name ''Open'', []), (Name ''Close'', [])])"
  shows "fst (get_stock_price yf t w) = Inl IndexError"
  using assms by (simp add: get_stock_price_run provider_answer_def)

lemma get_dividends_None:
  assumes "Ticker yf t = Inr h" and "dividends yf h = Inr PyNone"
  shows "fst (get_dividends yf t w) = Inl AttributeError"
  using assms by (simp add: get_dividends_run provider_answer_def)












section \<open>Properties of the lookup functions\<close>

text \<open>
  Claim C7. Whenever the provider raises during a lookup, in the constructor or in
  the accessor, each of the seven functions raises that same exception: nothing is
  caught and no payload is returned in its place. The ticker goes to the provider
  as it was given, and every invocation asks the provider afresh, the constructor
  once and the accessor at most once, whatever the world was before: there is no
  local validation, cache or retry.
\<close>

theorem provider_errors_propagate:
  "(provider_answer (Ticker yf t) (\<lambda>h. history yf h None) = Inl e \<longrightarrow>
      fst (get_stock_price yf t w) = Inl e) \<and>
   (provider_answer (Ticker yf t) (\<lambda>h. history yf h (Some (s1, s2))) = Inl e \<longrightarrow>
      fst (get_historical_stock_price yf t s1 s2 w) = Inl e) \<and>
   (provider_answer (Ticker yf t) (balance_sheet yf) = Inl e \<longrightarrow>
      fst (get_balance_sheet yf t w) = Inl e) \<and>
   (provider_answer (Ticker yf t) (news yf) = Inl e \<longrightarrow>
      fst (get_stock_news yf t w) = Inl e) \<and>
   (provider_answer (Ticker yf t) (info yf) = Inl e \<longrightarrow>
      fst (get_company_info yf t w) = Inl e) \<and>
   (provider_answer (Ticker yf t) (dividends yf) = Inl e \<longrightarrow>
      fst (get_dividends yf t w) = Inl e) \<and>
   (provider_answer (Ticker yf t) (financials yf) = Inl e \<longrightarrow>
      fst (get_financials yf t w) = Inl e) \<and>
   provider_calls (snd (get_stock_price yf t w)) =
     provider_calls w @ asked_once t (Call_history None) (Ticker yf t) \<and>
   provider_calls (snd (get_historical_stock_price yf t s1 s2 w)) =
     provider_calls w @ asked_once t (Call_history (Some (s1, s2))) (Ticker yf t) \<and>
   provider_calls (snd (get_balance_sheet yf t w)) =
     provider_calls w @ asked_once t Get_balance_sheet (Ticker yf t) \<and>
   provider_calls (snd (get_stock_news yf t w)) =
     provider_calls w @ asked_once t Get_news (Ticker yf t) \<and>
   provider_calls (snd (get_company_info yf t w)) =
     provider_calls w @ asked_once t Get_info (Ticker yf t) \<and>
   provider_calls (snd (get_dividends yf t w)) =
     provider_calls w @ asked_once t Get_dividends (Ticker yf t) \<and>
   provider_calls (snd (get_financials yf t w)) =
     provider_calls w @ asked_once t Get_financials (Ticker yf t)"
  by (simp add: lookup_runs)

theorem provider_errors_propagate_witness:
  "provider_answer (Ticker provider_down ''AAPL'') (\<lambda>h. history provider_down h None) = Inl outage \<and>
   provider_answer (Ticker provider_down ''AAPL'')
     (\<lambda>h. history provider_down h (Some (''2024-01-01'', ''2024-02-01''))) = Inl outage \<and>
   provider_answer (Ticker provider_down ''AAPL'') (balance_sheet provider_down) = Inl outage \<and>
   provider_answer (Ticker provider_down ''AAPL'') (news provider_down) = Inl outage \<and>
   provider_answer (Ticker provider_down ''AAPL'') (info provider_down) = Inl outage \<and>
   provider_answer (Ticker provider_down ''AAPL'') (dividends provider_down) = Inl outage \<and>
   provider_answer (Ticker provider_down ''AAPL'') (financials provider_down) = Inl outage \<and>
   fst (get_stock_price provider_down ''AAPL'' world0) = Inl outage \<and>
   fst (get_historical_stock_price provider_down ''AAPL'' ''2024-01-01'' ''2024-02-01'' world0)
     = Inl outage \<and>
   fst (get_balance_sheet provider_down ''AAPL'' world0) = Inl outage \<and>
   fst (get_stock_news provider_down ''AAPL'' world0) = Inl outage \<and>
   fst (get_company_info provider_down ''AAPL'' world0) = Inl outage \<and>
   fst (get_dividends provider_down ''AAPL'' world0) = Inl outage \<and>
   fst (get_financials provider_down ''AAPL'' world0) = Inl outage \<and>
   provider_calls (snd (get_stock_news provider_down ''AAPL'' world0))
     = [Call_Ticker ''AAPL'', Get_news]"
  using provider_errors_propagate
          [of provider_down "''AAPL''" outage world0 "''2024-01-01''" "''2024-02-01''"]
  by (simp add: provider_answer_def provider_down_def world0_def asked_once_def)

text \<open>
  Claim C8. Every invocation of a lookup function, whether it returns or raises,
  leaves the world as it found it except that standard output has grown by exactly
  one line, which names the lookup, and that the provider has been asked.
\<close>

theorem lookup_prints_one_line:
  "snd (get_stock_price yf t w) =
     w\<lparr>stdout := stdout w @ [''get_stock_price tool is being used''],
       provider_calls := provider_calls (snd (get_stock_price yf t w))\<rparr> \<and>
   snd (get_historical_stock_price yf t s1 s2 w) =
     w\<lparr>stdout := stdout w @ [''get_historical_stock_price tool is being used''],
       provider_calls := provider_calls (snd (get_historical_stock_price yf t s1 s2 w))\<rparr> \<and>
   snd (get_balance_sheet yf t w) =
     w\<lparr>stdout := stdout w @ [''get_balance_sheet tool is being used''],
       provider_calls := provider_calls (snd (get_balance_sheet yf t w))\<rparr> \<and>
   snd (get_stock_news yf t w) =
     w\<lparr>stdout := stdout w @ [''get_stock_news tool is being used''],
       provider_calls := provider_calls (snd (get_stock_news yf t w))\<rparr> \<and>
   snd (get_company_info yf t w) =
     w\<lparr>stdout := stdout w @ [''get_company_info tool is being used''],
       provider_calls := provider_calls (snd (get_company_info yf t w))\<rparr> \<and>
   snd (get_dividends yf t w) =
     w\<lparr>stdout := stdout w @ [''get_dividends tool is being used''],
       provider_calls := provider_calls (snd (get_dividends yf t w))\<rparr> \<and>
   snd (get_financials yf t w) =
     w\<lparr>stdout := stdout w @ [''get_financials tool is being used''],
       provider_calls := provider_calls (snd (get_financials yf t w))\<rparr>"
  by (simp add: lookup_runs)





section \<open>The relay loop in closed form\<close>

lemma drain_Suspended:
  "frame g = Suspended s \<Longrightarrow>
     drain a g = map (\<lambda>tok. ResponseBody (token.content tok)) (yielded s) @ [ending s]"
proof (induction s arbitrary: g)
  case (Item x rest)
  obtain tok m where x: "x = (tok, m)" by (cases x)
  have "frame (g\<lparr>frame := Suspended rest\<rparr>) = Suspended rest"
    by simp
  then have "drain a (g\<lparr>frame := Suspended rest\<rparr>)
      = map (\<lambda>tok. ResponseBody (token.content tok)) (yielded rest) @ [ending rest]"
    by (rule Item.IH)
  with Item.prems x show ?case
    by (subst drain.simps) (simp add: generate_next_def)
next
  case StopIteration
  then show ?case
    by (subst drain.simps) (simp add: generate_next_def)
next
  case (Raise e)
  then show ?case
    by (subst drain.simps) (simp add: generate_next_def)
qed

lemma drain_generate:
  "drain a (generate req cfg) =
     AgentStream (messages_for req) ''messages'' cfg
     # map (\<lambda>tok. ResponseBody (token.content tok))
         (yielded (stream a (messages_for req) ''messages'' cfg))
     @ [ending (stream a (messages_for req) ''messages'' cfg)]"
proof (cases "stream a (messages_for req) ''messages'' cfg")
  case (Item x rest)
  obtain tok m where x: "x = (tok, m)" by (cases x)
  have "drain a ((generate req cfg)\<lparr>frame := Suspended rest\<rparr>)
      = map (\<lambda>tok. ResponseBody (token.content tok)) (yielded rest) @ [ending rest]"
    by (rule drain_Suspended) simp
  with Item x show ?thesis
    by (subst drain.simps) (simp add: generate_next_def generate_def messages_for_def)
next
  case StopIteration
  then show ?thesis
    by (subst drain.simps) (simp add: generate_next_def generate_def messages_for_def)
next
  case (Raise e)
  then show ?thesis
    by (subst drain.simps) (simp add: generate_next_def generate_def messages_for_def)
qed

lemma chat_parts:
  "status_code (chat req) = 200"
  "media_type (chat req) = ''text/event-stream''"
  "headers (chat req) = [(''Cache-Control'', ''no-cache, no-transform''), (''Connection'', ''keep-alive'')]"
  "body_iterator (chat req) = generate req (config_for req)"
  by (simp_all add: chat_def StreamingResponse_init_def config_for_def)

lemma stream_response_chat:
  "stream_response (chat req) p =
     p\<lparr>sent := sent p @
          ResponseStart 200 ''text/event-stream''
            [(''Cache-Control'', ''no-cache, no-transform''), (''Connection'', ''keep-alive'')]
          # AgentStream (messages_for req) ''messages'' (config_for req)
          # map (\<lambda>tok. ResponseBody (token.content tok))
              (yielded (stream (agent p) (messages_for req) ''messages'' (config_for req)))
          @ [ending (stream (agent p) (messages_for req) ''messages'' (config_for req))]\<rparr>"
  by (simp add: stream_response_def chat_parts drain_generate)

lemma body_chunks_append: "body_chunks (xs @ ys) = body_chunks xs @ body_chunks ys"
  by (induction xs rule: body_chunks.induct) simp_all

lemma invocations_append: "invocations (xs @ ys) = invocations xs @ invocations ys"
  by (induction xs rule: invocations.induct) simp_all

lemma body_chunks_relayed:
  "body_chunks (map (\<lambda>tok. ResponseBody (token.content tok)) ts) = map token.content ts"
  by (induction ts) simp_all

lemma invocations_relayed:
  "invocations (map (\<lambda>tok. ResponseBody (token.content tok)) ts) = []"
  by (induction ts) simp_all

lemma body_chunks_ending: "body_chunks [ending s] = []"
  by (induction s) simp_all

lemma invocations_ending: "invocations [ending s] = []"
  by (induction s) simp_all

lemmas trace_simps =
  body_chunks_append invocations_append body_chunks_relayed invocations_relayed
  body_chunks_ending invocations_ending


section \<open>Facts about request validation\<close>

lemma str_validate_Inr: "str_validate l x = Inr v \<longleftrightarrow> x = Some (JString v)"
  by (cases "(l, x)" rule: str_validate.cases) auto

lemma str_validate_errors:
  "errors_of (str_validate l x) =
     (case x of
        None \<Rightarrow> [ValidationError l missing]
      | Some (JString _) \<Rightarrow> []
      | Some _ \<Rightarrow> [ValidationError l string_type])"
  by (cases "(l, x)" rule: str_validate.cases) (simp_all add: errors_of_def)

lemma str_validate_Inl: "str_validate l x = Inl es \<Longrightarrow> es = errors_of (str_validate l x) \<and> es \<noteq> []"
  by (cases "(l, x)" rule: str_validate.cases) (auto simp: errors_of_def)

lemma PromptObject_validate_Inr:
  "PromptObject_validate l x = Inr v \<longleftrightarrow>
     (\<exists>obj. x = Some (JObject obj) \<and>
        map_of obj ''content'' = Some (JString (content v)) \<and>
        map_of obj ''id'' = Some (JString (id' v)) \<and>
        map_of obj ''role'' = Some (JString (role v)))"
  by (cases "(l, x)" rule: PromptObject_validate.cases)
     (auto simp: Let_def str_validate_Inr split: sum.splits)

lemma PromptObject_validate_matches:
  "(\<exists>v. PromptObject_validate l (Some j) = Inr v) \<longleftrightarrow> matches_Prompt j"
proof
  assume "\<exists>v. PromptObject_validate l (Some j) = Inr v"
  then show "matches_Prompt j"
    by (auto simp: PromptObject_validate_Inr matches_Prompt_def string_at_def)
next
  assume m: "matches_Prompt j"
  then obtain obj where j: "j = JObject obj"
    by (cases j) (simp_all add: matches_Prompt_def)
  from m j obtain c i r where
    "map_of obj ''content'' = Some (JString c)" "map_of obj ''id'' = Some (JString i)"
    "map_of obj ''role'' = Some (JString r)"
    by (auto simp: matches_Prompt_def string_at_def split: option.splits json.splits)
  with j have "PromptObject_validate l (Some j) = Inr \<lparr>content = c, id' = i, role = r\<rparr>"
    by (simp add: PromptObject_validate_Inr)
  then show "\<exists>v. PromptObject_validate l (Some j) = Inr v" ..
qed

lemma RequestObject_validate_Inr:
  "RequestObject_validate l body = Inr v \<longleftrightarrow>
     (\<exists>obj. body = JObject obj \<and>
        PromptObject_validate (l @ [''prompt'']) (map_of obj ''prompt'') = Inr (prompt v) \<and>
        map_of obj ''threadId'' = Some (JString (threadId v)) \<and>
        map_of obj ''responseId'' = Some (JString (responseId v)))"
  by (cases "(l, body)" rule: RequestObject_validate.cases)
     (auto simp: Let_def str_validate_Inr split: sum.splits)

lemma RequestObject_validate_matches:
  "(\<exists>v. RequestObject_validate l body = Inr v) \<longleftrightarrow> matches_Request body"
proof
  assume "\<exists>v. RequestObject_validate l body = Inr v"
  then obtain v where "RequestObject_validate l body = Inr v" ..
  then obtain obj where body: "body = JObject obj"
    and p: "PromptObject_validate (l @ [''prompt'']) (map_of obj ''prompt'') = Inr (prompt v)"
    and rest: "map_of obj ''threadId'' = Some (JString (threadId v))"
      "map_of obj ''responseId'' = Some (JString (responseId v))"
    unfolding RequestObject_validate_Inr by blast
  from p obtain j where j: "map_of obj ''prompt'' = Some j"
    by (cases "map_of obj ''prompt''") simp_all
  with p have "matches_Prompt j"
    using PromptObject_validate_matches [of "l @ [''prompt'']" j] by auto
  with body j rest show "matches_Request body"
    by (simp add: matches_Request_def string_at_def)
next
  assume m: "matches_Request body"
  then obtain obj where body: "body = JObject obj"
    by (cases body) (simp_all add: matches_Request_def)
  from m body obtain j t r where j: "map_of obj ''prompt'' = Some j" "matches_Prompt j"
    and rest: "map_of obj ''threadId'' = Some (JString t)" "map_of obj ''responseId'' = Some (JString r)"
    by (auto simp: matches_Request_def string_at_def split: option.splits json.splits)
  from j(2) obtain p where "PromptObject_validate (l @ [''prompt'']) (Some j) = Inr p"
    using PromptObject_validate_matches [of "l @ [''prompt'']" j] by auto
  with body j rest
  have "RequestObject_validate l body = Inr \<lparr>prompt = p, threadId = t, responseId = r\<rparr>"
    by (simp add: RequestObject_validate_Inr)
  then show "\<exists>v. RequestObject_validate l body = Inr v" ..
qed


lemma PromptObject_validate_errors:
  "errors_of (PromptObject_validate l (Some (JObject obj))) =
     errors_of (str_validate (l @ [''content'']) (map_of obj ''content'')) @
     errors_of (str_validate (l @ [''id'']) (map_of obj ''id'')) @
     errors_of (str_validate (l @ [''role'']) (map_of obj ''role''))"
  by (simp add: Let_def errors_of_def split: sum.splits)

lemma RequestObject_validate_errors:
  "errors_of (RequestObject_validate l (JObject obj)) =
     errors_of (PromptObject_validate (l @ [''prompt'']) (map_of obj ''prompt'')) @
     errors_of (str_validate (l @ [''threadId'']) (map_of obj ''threadId'')) @
     errors_of (str_validate (l @ [''responseId'']) (map_of obj ''responseId''))"
  by (simp add: Let_def errors_of_def split: sum.splits)

lemma PromptObject_validate_Inl:
  "PromptObject_validate l x = Inl es \<Longrightarrow> es \<noteq> []"
  by (cases "(l, x)" rule: PromptObject_validate.cases)
     (auto simp: Let_def errors_of_def split: sum.splits dest: str_validate_Inl)

lemma RequestObject_validate_Inl:
  "RequestObject_validate l body = Inl es \<Longrightarrow> es \<noteq> []"
  by (cases "(l, body)" rule: RequestObject_validate.cases)
     (auto simp: Let_def errors_of_def split: sum.splits
           dest: str_validate_Inl PromptObject_validate_Inl)

lemma accurate_top_level:
  assumes "k = ''threadId'' \<or> k = ''responseId''"
  shows "list_all (accurate (JObject obj)) (errors_of (str_validate [''body'', k] (map_of obj k)))"
  using assms
  by (auto simp: str_validate_errors accurate_def declared_def split: option.splits json.splits)

lemma accurate_prompt_field:
  assumes "k = ''content'' \<or> k = ''id'' \<or> k = ''role''"
    and "map_of obj ''prompt'' = Some (JObject pobj)"
  shows "list_all (accurate (JObject obj))
           (errors_of (str_validate [''body'', ''prompt'', k] (map_of pobj k)))"
  using assms
  by (auto simp: str_validate_errors accurate_def declared_def split: option.splits json.splits)

lemma accurate_prompt:
  "list_all (accurate (JObject obj))
     (errors_of (PromptObject_validate [''body'', ''prompt''] (map_of obj ''prompt'')))"
proof (cases "map_of obj ''prompt''")
  case None
  then show ?thesis
    by (simp add: errors_of_def accurate_def declared_def)
next
  case (Some j)
  show ?thesis
  proof (cases j)
    case (JObject pobj)
    with Some show ?thesis
      by (simp add: PromptObject_validate_errors accurate_prompt_field
               del: PromptObject_validate.simps)
  qed (use Some in \<open>simp_all add: errors_of_def accurate_def declared_def\<close>)
qed

lemma accurate_errors:
  "list_all (accurate body) (errors_of (RequestObject_validate [''body''] body))"
proof (cases body)
  case (JObject obj)
  then show ?thesis
    by (simp add: RequestObject_validate_errors accurate_prompt accurate_top_level
             del: RequestObject_validate.simps)
qed (simp_all add: errors_of_def accurate_def declared_def)

lemma rejected_unless_matching:
  assumes "\<not> matches_Request body"
  shows "\<exists>es. RequestObject_validate l body = Inl es"
proof (cases "RequestObject_validate l body")
  case (Inl es)
  then show ?thesis ..
next
  case (Inr v)
  with assms show ?thesis
    using RequestObject_validate_matches [of l body] by auto
qed

lemma validated_request:
  assumes "map_of obj ''prompt'' = Some (JObject pobj)"
    and "map_of pobj ''content'' = Some (JString c)"
    and "map_of pobj ''id'' = Some (JString i)"
    and "map_of pobj ''role'' = Some (JString r)"
    and "map_of obj ''threadId'' = Some (JString t)"
    and "map_of obj ''responseId'' = Some (JString s)"
  shows "RequestObject_validate l (JObject obj) =
           Inr \<lparr>prompt = \<lparr>content = c, id' = i, role = r\<rparr>, threadId = t, responseId = s\<rparr>"
  using assms by (simp add: Let_def)

section \<open>Properties of the endpoint and the registry\<close>

text \<open>
  Claim C1. A body that does not have the Request shape, because
  \<^verbatim>\<open>prompt.content\<close>, \<^verbatim>\<open>threadId\<close>, \<^verbatim>\<open>responseId\<close> or another declared field is
  missing or is not a string, is answered with the client-error status 422 and a
  non-empty list of validation errors. Every error names the path of a declared
  field and a constraint that the body really violates there. The agent is not
  invoked and nothing is written to a response body; since the lookup functions
  run only inside an agent stream, no tool runs either.
\<close>

theorem invalid_body_rejected:
  assumes "\<not> matches_Request body"
  shows "post_api_chat body p =
           p\<lparr>sent := sent p @
                [ErrorResponse 422 (errors_of (RequestObject_validate [''body''] body))]\<rparr> \<and>
         errors_of (RequestObject_validate [''body''] body) \<noteq> [] \<and>
         list_all (accurate body) (errors_of (RequestObject_validate [''body''] body)) \<and>
         invocations (sent (post_api_chat body p)) = invocations (sent p) \<and>
         body_chunks (sent (post_api_chat body p)) = body_chunks (sent p) \<and>
         agent (post_api_chat body p) = agent p"
proof -
  from assms obtain es where rejected: "RequestObject_validate [''body''] body = Inl es"
    using rejected_unless_matching by blast
  then have "es \<noteq> []"
    by (rule RequestObject_validate_Inl)
  moreover have "list_all (accurate body) es"
    using accurate_errors [of body] rejected by (simp add: errors_of_def)
  ultimately show ?thesis
    by (simp add: post_api_chat_def rejected errors_of_def trace_simps)
qed

theorem invalid_body_rejected_witness:
  "\<not> matches_Request
       (JObject [(''prompt'', JObject [(''content'', JNumber 5), (''id'', JString ''1''),
                                       (''role'', JString ''user'')]),
                 (''responseId'', JString ''r1'')]) \<and>
   sent (post_api_chat
           (JObject [(''prompt'', JObject [(''content'', JNumber 5), (''id'', JString ''1''),
                                           (''role'', JString ''user'')]),
                     (''responseId'', JString ''r1'')])
           sample_process) =
     [ErrorResponse 422
        [ValidationError [''body'', ''prompt'', ''content''] string_type,
         ValidationError [''body'', ''threadId''] missing]]"
proof -
  let ?body = "JObject [(''prompt'', JObject [(''content'', JNumber 5), (''id'', JString ''1''),
                                             (''role'', JString ''user'')]),
                        (''responseId'', JString ''r1'')]"
  have bad: "\<not> matches_Request ?body"
    by (simp add: matches_Request_def matches_Prompt_def string_at_def)
  have none: "sent sample_process = []"
    by (simp add: sample_process_def startup_def)
  have "errors_of (RequestObject_validate [''body''] ?body) =
          [ValidationError [''body'', ''prompt'', ''content''] string_type,
           ValidationError [''body'', ''threadId''] missing]"
    by (simp add: errors_of_def)
  with invalid_body_rejected [OF bad, of sample_process] bad none show ?thesis
    by simp
qed


text \<open>
  Claim C2. For every validated request the handler returns a response with
  status 200, media type \<^verbatim>\<open>text/event-stream\<close> and the headers
  \<^verbatim>\<open>Cache-Control: no-cache, no-transform\<close> and \<^verbatim>\<open>Connection: keep-alive\<close>. The
  generator inside it has not started when the handler returns. When the
  response is sent, its start comes first; the generator body runs after that,
  and its first action is the call of the agent, so the start precedes every
  token.
\<close>

theorem chat_response_started_first:
  "status_code (chat req) = 200 \<and>
   media_type (chat req) = ''text/event-stream'' \<and>
   headers (chat req) =
     [(''Cache-Control'', ''no-cache, no-transform''), (''Connection'', ''keep-alive'')] \<and>
   frame (body_iterator (chat req)) = Created \<and>
   sent (stream_response (chat req) p) =
     sent p @
     ResponseStart 200 ''text/event-stream''
       [(''Cache-Control'', ''no-cache, no-transform''), (''Connection'', ''keep-alive'')]
     # drain (agent p) (body_iterator (chat req)) \<and>
   hd (drain (agent p) (body_iterator (chat req))) =
     AgentStream (messages_for req) ''messages'' (config_for req)"
  by (simp add: chat_parts stream_response_def drain_generate) (simp add: generate_def)

text \<open>
  Claim C3. Serving a validated request invokes the agent exactly once, in
  streaming mode, with a list of exactly two messages, the fixed system
  instruction followed by a user message whose text is \<^verbatim>\<open>request.prompt.content\<close>,
  and with a configuration whose only setting is \<^verbatim>\<open>thread_id\<close> =
  \<^verbatim>\<open>request.threadId\<close> (under the framework's key \<^verbatim>\<open>configurable\<close>). The chunks
  written are those of the stream that this invocation returns.
\<close>

theorem agent_invoked_with_two_messages:
  "invocations (sent (stream_response (chat req) p)) =
     invocations (sent p) @
     [AgentStream
        [(''messages'',
          [SystemMessage system_instruction, HumanMessage (content (prompt req))])]
        ''messages''
        [(''configurable'', [(''thread_id'', threadId req)])]] \<and>
   body_chunks (sent (stream_response (chat req) p)) =
     body_chunks (sent p) @
     map token.content
       (yielded (stream (agent p)
          [(''messages'',
            [SystemMessage system_instruction, HumanMessage (content (prompt req))])]
          ''messages''
          [(''configurable'', [(''thread_id'', threadId req)])]))"
  by (simp add: stream_response_chat trace_simps) (simp add: messages_for_def config_for_def)

text \<open>
  Claim C4. Whatever the agent stream yields, the chunks written to the response
  body are the contents of its tokens, one chunk per token, in order and
  unchanged, so both concatenations agree. Each turn of the generator takes
  exactly one item of the stream and yields its content, and the relay loop
  writes that chunk before it asks for the next item.
\<close>

theorem tokens_relayed_unchanged:
  "body_chunks (drain a (generate req cfg)) =
     map token.content (yielded (stream a (messages_for req) ''messages'' cfg)) \<and>
   concat (body_chunks (drain a (generate req cfg))) =
     concat (map token.content (yielded (stream a (messages_for req) ''messages'' cfg))) \<and>
   body_chunks (sent (stream_response (chat req) p)) =
     body_chunks (sent p) @
     map token.content
       (yielded (stream (agent p) (messages_for req) ''messages'' (config_for req))) \<and>
   generate_next a (g\<lparr>frame := Suspended (Item (tok, m) rest)\<rparr>) =
     ((Yield (token.content tok), g\<lparr>frame := Suspended rest\<rparr>), []) \<and>
   drain a (g\<lparr>frame := Suspended (Item (tok, m) rest)\<rparr>) =
     ResponseBody (token.content tok) # drain a (g\<lparr>frame := Suspended rest\<rparr>)"
proof -
  have "drain a (g\<lparr>frame := Suspended (Item (tok, m) rest)\<rparr>) =
          ResponseBody (token.content tok) # drain a (g\<lparr>frame := Suspended rest\<rparr>)"
    by (simp add: drain_Suspended)
  then show ?thesis
    by (simp add: drain_generate stream_response_chat trace_simps generate_next_def)
qed

text \<open>
  Claim C5. The registry given to the agent at start-up has exactly seven
  entries, the seven lookup functions in the order of the source, each under its
  own fixed name and with a fixed description; names and descriptions do not
  depend on the provider or on any request. Handling a request, valid or not,
  leaves the agent and with it the registry as it was.
\<close>

theorem tool_registry_fixed:
  "map name (tools yf) =
     [''get_stock_price'', ''get_historical_stock_price'', ''get_balance_sheet'',
      ''get_stock_news'', ''get_company_info'', ''get_dividends'', ''get_financials''] \<and>
   map func (tools yf) =
     [Ticker_func (get_stock_price yf), Range_func (get_historical_stock_price yf),
      Ticker_func (get_balance_sheet yf), Ticker_func (get_stock_news yf),
      Ticker_func (get_company_info yf), Ticker_func (get_dividends yf),
      Ticker_func (get_financials yf)] \<and>
   map description (tools yf) =
     [''A function that returns the current stock price based on a ticker symbol.'',
      ''A function that returns the current stock price over time based on a ticker symbol and a start and end date.'',
      ''A function that returns the balance sheet based on a ticker symbol.'',
      ''A function that returns news based on a ticker symbol.'',
      ''Return company profile / info for a ticker (summary, sector, industry, website, etc.).'',
      ''Return dividend history for a ticker.'',
      ''Return financial statements (income statement / financials) for a ticker.''] \<and>
   length (tools yf) = 7 \<and>
   distinct (map name (tools yf)) \<and>
   agent_tools (agent (startup behaviour yf)) = tools yf \<and>
   agent (stream_response (chat req) p) = agent p \<and>
   agent (post_api_chat body p) = agent p"
  by (simp add: tools_def tool_def startup_def create_agent_def stream_response_def
        post_api_chat_def split: sum.splits)

text \<open>
  Claim C9. Two validated requests that agree on \<^verbatim>\<open>prompt.content\<close> and
  \<^verbatim>\<open>threadId\<close>, and so differ at most in \<^verbatim>\<open>responseId\<close>, \<^verbatim>\<open>prompt.id\<close> and
  \<^verbatim>\<open>prompt.role\<close>, are served identically: the same agent invocation, the same
  chunks, the same process afterwards, for every agent. The same holds for two
  bodies that validate to such requests.
\<close>

theorem unused_fields_do_not_matter:
  assumes "content (prompt r1) = content (prompt r2)" and "threadId r1 = threadId r2"
  shows "stream_response (chat r1) p = stream_response (chat r2) p \<and>
         invocations (drain a (body_iterator (chat r1))) =
           invocations (drain a (body_iterator (chat r2))) \<and>
         body_chunks (drain a (body_iterator (chat r1))) =
           body_chunks (drain a (body_iterator (chat r2))) \<and>
         (RequestObject_validate [''body''] b1 = Inr r1 \<and>
          RequestObject_validate [''body''] b2 = Inr r2 \<longrightarrow>
            post_api_chat b1 p = post_api_chat b2 p)"
proof -
  from assms have same: "messages_for r1 = messages_for r2" "config_for r1 = config_for r2"
    by (simp_all add: messages_for_def config_for_def)
  then have "stream_response (chat r1) p = stream_response (chat r2) p"
    by (simp add: stream_response_chat)
  moreover from same have "drain a (body_iterator (chat r1)) = drain a (body_iterator (chat r2))"
    by (simp add: chat_parts drain_generate)
  ultimately show ?thesis
    by (simp add: post_api_chat_def)
qed


theorem unused_fields_do_not_matter_witness:
  "content (prompt sample_request) =
     content (prompt \<lparr>prompt = \<lparr>content = ''What is AAPL's current price?'', id' = ''77'',
                                 role = ''assistant''\<rparr>,
                      threadId = ''t1'', responseId = ''another''\<rparr>) \<and>
   threadId sample_request = ''t1'' \<and>
   sample_request \<noteq>
     \<lparr>prompt = \<lparr>content = ''What is AAPL's current price?'', id' = ''77'', role = ''assistant''\<rparr>,
      threadId = ''t1'', responseId = ''another''\<rparr> \<and>
   stream_response (chat sample_request) sample_process =
     stream_response
       (chat \<lparr>prompt = \<lparr>content = ''What is AAPL's current price?'', id' = ''77'',
                          role = ''assistant''\<rparr>,
               threadId = ''t1'', responseId = ''another''\<rparr>)
       sample_process"
proof -
  let ?other = "\<lparr>prompt = \<lparr>content = ''What is AAPL's current price?'', id' = ''77'',
                              role = ''assistant''\<rparr>,
                   threadId = ''t1'', responseId = ''another''\<rparr>"
  have same: "content (prompt sample_request) = content (prompt ?other)"
    "threadId sample_request = threadId ?other"
    by (simp_all add: sample_request_def)
  have "sample_request \<noteq> ?other"
    by (simp add: sample_request_def)
  with unused_fields_do_not_matter
         [OF same, of sample_process "agent sample_process" sample_body sample_body] same
  show ?thesis
    by simp
qed

text \<open>
  Claim C10. A body in which every declared field is present and is a string
  passes validation also when \<^verbatim>\<open>prompt.content\<close>, \<^verbatim>\<open>threadId\<close> or
  \<^verbatim>\<open>responseId\<close> is the empty string, and the agent is then invoked with those
  values as they are.
\<close>

theorem empty_strings_pass_validation:
  assumes "map_of obj ''prompt'' = Some (JObject pobj)"
    and "map_of pobj ''content'' = Some (JString c)"
    and "map_of pobj ''id'' = Some (JString i)"
    and "map_of pobj ''role'' = Some (JString r)"
    and "map_of obj ''threadId'' = Some (JString t)"
    and "map_of obj ''responseId'' = Some (JString s)"
    and "c = [] \<or> t = [] \<or> s = []"
  shows "RequestObject_validate [''body''] (JObject obj) =
           Inr \<lparr>prompt = \<lparr>content = c, id' = i, role = r\<rparr>, threadId = t, responseId = s\<rparr> \<and>
         invocations (sent (post_api_chat (JObject obj) p)) =
           invocations (sent p) @
           [AgentStream [(''messages'', [SystemMessage system_instruction, HumanMessage c])]
              ''messages'' [(''configurable'', [(''thread_id'', t)])]] \<and>
         body_chunks (sent (post_api_chat (JObject obj) p)) =
           body_chunks (sent p) @
           map token.content
             (yielded (stream (agent p)
                [(''messages'', [SystemMessage system_instruction, HumanMessage c])]
                ''messages'' [(''configurable'', [(''thread_id'', t)])]))"
proof -
  have "RequestObject_validate [''body''] (JObject obj) =
          Inr \<lparr>prompt = \<lparr>content = c, id' = i, role = r\<rparr>, threadId = t, responseId = s\<rparr>"
    using assms(1-6) by (rule validated_request)
  then show ?thesis
    by (simp add: post_api_chat_def stream_response_chat trace_simps messages_for_def
          config_for_def del: RequestObject_validate.simps)
qed

theorem empty_strings_pass_validation_witness:
  "RequestObject_validate [''body'']
     (JObject [(''prompt'', JObject [(''content'', JString []), (''id'', JString ''1''),
                                     (''role'', JString ''user'')]),
               (''threadId'', JString []),
               (''responseId'', JString [])]) =
     Inr \<lparr>prompt = \<lparr>content = [], id' = ''1'', role = ''user''\<rparr>,
          threadId = [], responseId = []\<rparr> \<and>
   invocations
     (sent (post_api_chat
        (JObject [(''prompt'', JObject [(''content'', JString []), (''id'', JString ''1''),
                                        (''role'', JString ''user'')]),
                  (''threadId'', JString []),
                  (''responseId'', JString [])])
        sample_process)) =
     [AgentStream [(''messages'', [SystemMessage system_instruction, HumanMessage []])]
        ''messages'' [(''configurable'', [(''thread_id'', [])])]] \<and>
   body_chunks
     (sent (post_api_chat
        (JObject [(''prompt'', JObject [(''content'', JString []), (''id'', JString ''1''),
                                        (''role'', JString ''user'')]),
                  (''threadId'', JString []),
                  (''responseId'', JString [])])
        sample_process)) =
     [''AAPL '', ''closed at 192'']"
proof -
  have none: "sent sample_process = []"
    by (simp add: sample_process_def startup_def)
  have answer: "stream (agent sample_process) i m c =
      Item (Token ''AAPL '', ()) (Item (Token ''closed at 192'', ()) StopIteration)" for i m c
    by (simp add: sample_process_def startup_def create_agent_def sample_behaviour_def)
  show ?thesis
    using empty_strings_pass_validation
            [of "[(''prompt'', JObject [(''content'', JString []), (''id'', JString ''1''),
                                        (''role'', JString ''user'')]),
                  (''threadId'', JString []),
                  (''responseId'', JString [])]"
                "[(''content'', JString []), (''id'', JString ''1''), (''role'', JString ''user'')]"
                "[]" "''1''" "''user''" "[]" "[]" sample_process]
    by (simp add: none answer del: RequestObject_validate.simps)
qed

end
